theory Spec2Isabelle
  imports Main "HOL-Library.AList" "HOL-Library.Sublist" "HOL-Library.Char_ord"
    "HOL-Library.List_Lexorder"
begin

section \<open>JavaScript values and documents\<close>

text \<open>
  The server of \<^verbatim>\<open>index.js\<close> handles JSON request bodies and schemaless stored
  documents. A value is one of the JavaScript values that JSON and the document store
  can carry. Numbers are modelled as integers: no handler computes with them, only their
  truthiness (zero or not) is ever tested.
\<close>

datatype jsval =
    JUndefined
  | JNull
  | JBool bool
  | JNum int
  | JStr string
  | JArr "jsval list"
  | JObj "(string \<times> jsval) list"

type_synonym doc = "(string \<times> jsval) list"

text \<open>JavaScript truthiness, as tested by \<^verbatim>\<open>if (v)\<close>, \<^verbatim>\<open>!v\<close>, \<^verbatim>\<open>a && b\<close> and \<^verbatim>\<open>a || b\<close>.\<close>

fun truthy :: "jsval \<Rightarrow> bool" where
  "truthy JUndefined = False"
| "truthy JNull = False"
| "truthy (JBool b) = b"
| "truthy (JNum n) = (n \<noteq> 0)"
| "truthy (JStr s) = (s \<noteq> [])"
| "truthy (JArr xs) = True"
| "truthy (JObj kvs) = True"

text \<open>
  Strict equality \<^verbatim>\<open>===\<close>. Primitives compare by value. Arrays and objects compare by
  reference; the two operands of every \<^verbatim>\<open>===\<close> in the program come from different
  sources (a stored document and the request), so they are never the same reference.
\<close>

fun strict_eq :: "jsval \<Rightarrow> jsval \<Rightarrow> bool" where
  "strict_eq JUndefined JUndefined = True"
| "strict_eq JNull JNull = True"
| "strict_eq (JBool a) (JBool b) = (a = b)"
| "strict_eq (JNum a) (JNum b) = (a = b)"
| "strict_eq (JStr a) (JStr b) = (a = b)"
| "strict_eq _ _ = False"

text \<open>\<^verbatim>\<open>a || b\<close>\<close>

definition js_or :: "jsval \<Rightarrow> jsval \<Rightarrow> jsval" where
  "js_or a b = (if truthy a then a else b)"

text \<open>Property read \<^verbatim>\<open>d.k\<close>: a missing property reads as \<^verbatim>\<open>undefined\<close>.\<close>

definition getf :: "doc \<Rightarrow> string \<Rightarrow> jsval" where
  "getf d k = (case map_of d k of None \<Rightarrow> JUndefined | Some v \<Rightarrow> v)"

text \<open>Property assignment \<^verbatim>\<open>d.k = v\<close> and \<^verbatim>\<open>delete d.k\<close>.\<close>

definition setf :: "doc \<Rightarrow> string \<Rightarrow> jsval \<Rightarrow> doc" where
  "setf d k v = AList.update k v d"

definition delf :: "doc \<Rightarrow> string \<Rightarrow> doc" where
  "delf d k = AList.delete k d"


text \<open>
  \<^verbatim>\<open>s.split(sep)[0]\<close>: the text of \<open>s\<close> before the first occurrence of the separator,
  all of \<open>s\<close> when the separator does not occur.
\<close>

fun before_sep :: "string \<Rightarrow> string \<Rightarrow> string" where
  "before_sep sep [] = []"
| "before_sep sep (c # cs) = (if prefix sep (c # cs) then [] else c # before_sep sep cs)"

section \<open>Identity resolution: \<^verbatim>\<open>authenticateToken\<close>\<close>

record identity =
  uid :: jsval
  email :: jsval
  name :: jsval

text \<open>The claims of a verified Firebase ID token that the middleware reads.\<close>

record decoded_token =
  tok_uid :: string
  tok_email :: "string option"
  tok_name :: "string option"

text \<open>
  The parts of the world outside the program that a request meets: the token
  verification service (\<open>None\<close> when \<^verbatim>\<open>verifyIdToken\<close> throws), whether Firebase Admin
  was initialised at start-up, the identifier parser of the store's driver
  (\<open>None\<close> when \<^verbatim>\<open>new ObjectId(v)\<close> throws, which is also when \<^verbatim>\<open>ObjectId.isValid(v)\<close>
  is false; otherwise the identifier in canonical form), the outcome of the liveness ping
  of the request, the outcomes of the connection attempts (\<^verbatim>\<open>client.connect()\<close> and the
  ping that follows it, by attempt number), the clock and the identifier the store gives
  the next inserted document.
\<close>

record env =
  verifyIdToken :: "string \<Rightarrow> decoded_token option"
  firebaseAdminInitialized :: bool
  toObjectId :: "jsval \<Rightarrow> string option"
  pingOk :: bool
  connectOk :: "nat \<Rightarrow> bool"
  verifyPingOk :: "nat \<Rightarrow> bool"
  now :: string
  freshId :: string

record request =
  headers :: "(string \<times> string) list"
  param_id :: string
  param_commentId :: string
  body :: doc

definition header :: "request \<Rightarrow> string \<Rightarrow> jsval" where
  "header req k = (case map_of (headers req) k of None \<Rightarrow> JUndefined | Some s \<Rightarrow> JStr s)"

text \<open>
  \<^verbatim>\<open>authHeader?.startsWith("Bearer ") ? authHeader.split("Bearer ")[1] : null\<close>
\<close>

definition bearer_token :: "request \<Rightarrow> jsval" where
  "bearer_token req =
     (case map_of (headers req) ''authorization'' of
        None \<Rightarrow> JNull
      | Some h \<Rightarrow>
          if prefix ''Bearer '' h then JStr (before_sep ''Bearer '' (drop 7 h)) else JNull)"

text \<open>\<^verbatim>\<open>email?.split("@")[0]\<close> on a value that is a string or missing.\<close>

definition local_part :: "jsval \<Rightarrow> jsval" where
  "local_part v = (case v of JStr s \<Rightarrow> JStr (before_sep ''@'' s) | _ \<Rightarrow> JUndefined)"

definition opt_str :: "string option \<Rightarrow> jsval" where
  "opt_str v = (case v of None \<Rightarrow> JUndefined | Some s \<Rightarrow> JStr s)"

datatype auth_result = Authenticated identity | Rejected nat

text \<open>
  The middleware. The second component of the result lists the tokens handed to the
  verification service during the call.
\<close>

definition authenticateToken :: "env \<Rightarrow> request \<Rightarrow> auth_result \<times> string list" where
  "authenticateToken e req =
     (let token = bearer_token req;
          userEmail = js_or (header req ''x-user-email'') (header req ''user-email'');
          userUid = js_or (header req ''x-user-uid'') (header req ''user-uid'')
      in if truthy userEmail \<and> truthy userUid then
           (Authenticated \<lparr>uid = userUid, email = userEmail, name = local_part userEmail\<rparr>, [])
         else
           (case (if truthy token \<and> firebaseAdminInitialized e
                  then (case token of JStr t \<Rightarrow> Some t | _ \<Rightarrow> None) else None) of
              Some t \<Rightarrow>
                (case verifyIdToken e t of
                   Some d \<Rightarrow>
                     (Authenticated
                        \<lparr>uid = JStr (tok_uid d),
                         email = opt_str (tok_email d),
                         name = js_or (opt_str (tok_name d)) (local_part (opt_str (tok_email d)))\<rparr>,
                      [t])
                 | None \<Rightarrow> (Rejected 401, [t]))
            | None \<Rightarrow> (Rejected 401, [])))"

section \<open>Ownership: \<^verbatim>\<open>isCreator\<close>\<close>

definition isCreator :: "doc \<Rightarrow> jsval \<Rightarrow> jsval \<Rightarrow> bool" where
  "isCreator resource userEmail userUid =
     (if truthy (getf resource ''userEmail'') \<and> strict_eq (getf resource ''userEmail'') userEmail
        then True
      else if truthy (getf resource ''creatorEmail'') \<and>
              strict_eq (getf resource ''creatorEmail'') userEmail
        then True
      else if truthy (getf resource ''authorEmail'') \<and>
              strict_eq (getf resource ''authorEmail'') userEmail
        then True
      else if truthy (getf resource ''userId'') \<and> strict_eq (getf resource ''userId'') userUid
        then True
      else if truthy (getf resource ''creatorId'') \<and>
              strict_eq (getf resource ''creatorId'') userUid
        then True
      else if truthy (getf resource ''authorId'') \<and> strict_eq (getf resource ''authorId'') userUid
        then True
      else False)"

section \<open>The document store\<close>

text \<open>
  The driver writes a property whose value is \<^verbatim>\<open>undefined\<close> as \<^verbatim>\<open>null\<close> (its default,
  \<^verbatim>\<open>ignoreUndefined: false\<close>), at every depth of the document.
\<close>

fun store_val :: "jsval \<Rightarrow> jsval" where
  "store_val JUndefined = JNull"
| "store_val (JArr xs) = JArr (map store_val xs)"
| "store_val (JObj kvs) = JObj (map (\<lambda>(k, v). (k, store_val v)) kvs)"
| "store_val v = v"

definition to_bson :: "doc \<Rightarrow> doc" where
  "to_bson d = map (\<lambda>(k, v). (k, store_val v)) d"

text \<open>
  The equality condition \<^verbatim>\<open>{field: q}\<close> of a query, on the value the stored document
  has for the field (\<^verbatim>\<open>undefined\<close> when it has none): the same value, a missing field for
  \<^verbatim>\<open>null\<close>, or an array that holds the value. Query operators (a \<open>q\<close> that is an object
  with \<^verbatim>\<open>$\<close> keys) are not modelled.
\<close>

definition query_eq :: "jsval \<Rightarrow> jsval \<Rightarrow> bool" where
  "query_eq stored q =
     (let q' = store_val q
      in stored = q' \<or> (q' = JNull \<and> stored = JUndefined) \<or>
         (case stored of JArr xs \<Rightarrow> q' \<in> set xs | _ \<Rightarrow> False))"

text \<open>
  A collection is the list of its documents in insertion order. The collections whose
  documents are looked up by \<^verbatim>\<open>_id\<close> hold pairs of the identifier (in canonical form) and
  the other fields. The store assigns the identifier; every operation on a collection
  completes (the failures of the store are those of the connection, below).
\<close>

definition findOne :: "('d \<Rightarrow> bool) \<Rightarrow> 'd list \<Rightarrow> 'd option" where
  "findOne p c = find p c"

definition insertOne :: "'d \<Rightarrow> 'd list \<Rightarrow> 'd list" where
  "insertOne d c = c @ [d]"

text \<open>\<^verbatim>\<open>deleteOne\<close> removes the first match and reports \<^verbatim>\<open>deletedCount\<close>.\<close>

fun deleteOne :: "('d \<Rightarrow> bool) \<Rightarrow> 'd list \<Rightarrow> 'd list \<times> nat" where
  "deleteOne p [] = ([], 0)"
| "deleteOne p (d # ds) =
     (if p d then (ds, 1) else (d # fst (deleteOne p ds), snd (deleteOne p ds)))"

definition deleteMany :: "('d \<Rightarrow> bool) \<Rightarrow> 'd list \<Rightarrow> 'd list" where
  "deleteMany p c = filter (\<lambda>d. \<not> p d) c"

text \<open>\<^verbatim>\<open>updateOne(filter, {$set: u})\<close>: the first match takes the fields of \<open>u\<close>.\<close>

definition dollar_set :: "doc \<Rightarrow> doc \<Rightarrow> doc" where
  "dollar_set stored u = AList.merge stored (to_bson u)"

fun updateOne :: "('d \<Rightarrow> bool) \<Rightarrow> ('d \<Rightarrow> 'd) \<Rightarrow> 'd list \<Rightarrow> 'd list" where
  "updateOne p f [] = []"
| "updateOne p f (d # ds) = (if p d then f d # ds else d # updateOne p f ds)"

definition by_id :: "string \<Rightarrow> string \<times> doc \<Rightarrow> bool" where
  "by_id i d = (fst d = i)"

section \<open>Connection state and the availability guard\<close>

text \<open>
  The module-level state: the flag \<^verbatim>\<open>dbConnected\<close>, whether the handle \<^verbatim>\<open>db\<close> is set,
  whether the client's topology reports a connection, and the five collections the
  handlers below use.
\<close>

record state =
  dbConnected :: bool
  db :: bool
  topologyConnected :: bool
  groupCollection :: "(string \<times> doc) list"
  joinedCollection :: "doc list"
  articlesCollection :: "(string \<times> doc) list"
  commentsCollection :: "(string \<times> doc) list"

text \<open>
  \<^verbatim>\<open>connectToMongoDB(retries, delay)\<close>: the loop over the attempts, \<open>n\<close> attempts left and
  \<open>i\<close> the attempt number. The waiting time between attempts is not modelled.
\<close>

fun connect_loop :: "env \<Rightarrow> nat \<Rightarrow> nat \<Rightarrow> state \<Rightarrow> bool \<times> state" where
  "connect_loop e 0 i s = (False, s)"
| "connect_loop e (Suc n) i s =
     (if topologyConnected s then (True, s\<lparr>db := True, dbConnected := True\<rparr>)
      else if connectOk e i then
        (if verifyPingOk e i
         then (True, s\<lparr>topologyConnected := True, db := True, dbConnected := True\<rparr>)
         else if n \<noteq> 0 then connect_loop e n (Suc i) (s\<lparr>topologyConnected := True\<rparr>)
         else (False, s\<lparr>topologyConnected := True, dbConnected := False\<rparr>))
      else if n \<noteq> 0 then connect_loop e n (Suc i) s
      else (False, s\<lparr>dbConnected := False\<rparr>))"

definition connectToMongoDB :: "env \<Rightarrow> nat \<Rightarrow> state \<Rightarrow> bool \<times> state" where
  "connectToMongoDB e retries s = connect_loop e retries 0 s"

text \<open>
  \<^verbatim>\<open>checkDbConnection(res)\<close>: \<open>None\<close> when the request may proceed, otherwise the status
  of the answer it has sent. The third component records whether the guard issued its
  liveness ping, the fourth whether it attempted a reconnection.
\<close>

definition checkDbConnection :: "env \<Rightarrow> state \<Rightarrow> nat option \<times> state \<times> bool \<times> bool" where
  "checkDbConnection e s =
     (if \<not> dbConnected s \<or> \<not> db s then
        (if \<not> topologyConnected s then
           (case connectToMongoDB e 1 s of
              (True, s') \<Rightarrow> (None, s', False, True)
            | (False, s') \<Rightarrow> (Some 503, s', False, True))
         else (Some 503, s, False, False))
      else if pingOk e then (None, s, True, False)
      else (Some 503, s\<lparr>dbConnected := False\<rparr>, True, False))"

text \<open>The first two lines of every handler: \<^verbatim>\<open>if (dbCheck) return dbCheck;\<close>\<close>

definition guarded :: "env \<Rightarrow> state \<Rightarrow> (state \<Rightarrow> nat \<times> state) \<Rightarrow> nat \<times> state" where
  "guarded e s k =
     (case checkDbConnection e s of
        (Some r, s', _) \<Rightarrow> (r, s')
      | (None, s', _) \<Rightarrow> k s')"

section \<open>Groups and join records\<close>


definition updateGroup :: "env \<Rightarrow> identity \<Rightarrow> request \<Rightarrow> state \<Rightarrow> nat \<times> state" where
  "updateGroup e u req s =
     guarded e s (\<lambda>s.
       case toObjectId e (JStr (param_id req)) of
         None \<Rightarrow> (400, s)
       | Some oid \<Rightarrow>
           (case findOne (by_id oid) (groupCollection s) of
              None \<Rightarrow> (404, s)
            | Some grp \<Rightarrow>
                if \<not> isCreator (snd grp) (email u) (uid u) then (403, s)
                else
                  let d1 = delf (body req) ''userEmail'';
                      d2 = delf d1 ''userId'';
                      d3 = delf d2 ''creatorEmail'';
                      d4 = delf d3 ''creatorId'';
                      updatedData = setf d4 ''updatedAt'' (JStr (now e))
                  in (200, s\<lparr>groupCollection :=
                        updateOne (by_id oid) (\<lambda>d. (fst d, dollar_set (snd d) updatedData))
                          (groupCollection s)\<rparr>)))"

definition deleteGroup :: "env \<Rightarrow> identity \<Rightarrow> request \<Rightarrow> state \<Rightarrow> nat \<times> state" where
  "deleteGroup e u req s =
     guarded e s (\<lambda>s.
       case toObjectId e (JStr (param_id req)) of
         None \<Rightarrow> (400, s)
       | Some oid \<Rightarrow>
           (case findOne (by_id oid) (groupCollection s) of
              None \<Rightarrow> (404, s)
            | Some grp \<Rightarrow>
                if \<not> isCreator (snd grp) (email u) (uid u) then (403, s)
                else
                  let result = deleteOne (by_id oid) (groupCollection s);
                      s1 = s\<lparr>groupCollection := fst result\<rparr>
                  in if snd result = 1 then
                       (200, s1\<lparr>joinedCollection :=
                          deleteMany (\<lambda>j. query_eq (getf j ''groupId'') (JStr (param_id req)))
                            (joinedCollection s1)\<rparr>)
                     else (404, s1)))"

text \<open>The query \<^verbatim>\<open>{groupId, userEmail}\<close> on the join records.\<close>

definition join_query :: "jsval \<Rightarrow> jsval \<Rightarrow> doc \<Rightarrow> bool" where
  "join_query groupId userEmail j =
     (query_eq (getf j ''groupId'') groupId \<and> query_eq (getf j ''userEmail'') userEmail)"

definition joinGroup :: "env \<Rightarrow> identity \<Rightarrow> request \<Rightarrow> state \<Rightarrow> nat \<times> state" where
  "joinGroup e u req s =
     guarded e s (\<lambda>s.
       let groupId = getf (body req) ''groupId'' in
       if \<not> truthy groupId then (400, s)
       else
         let userEmail = email u; userId = uid u in
         case findOne (join_query groupId userEmail) (joinedCollection s) of
           Some existing \<Rightarrow> (409, s)
         | None \<Rightarrow>
             (case toObjectId e groupId of
                None \<Rightarrow> (400, s)
              | Some oid \<Rightarrow>
                  (case findOne (by_id oid) (groupCollection s) of
                     None \<Rightarrow> (404, s)
                   | Some grp \<Rightarrow>
                       let joinedGroup =
                             [(''groupId'', groupId), (''userEmail'', userEmail),
                              (''userId'', userId), (''joinedAt'', JStr (now e))]
                       in (201, s\<lparr>joinedCollection :=
                             insertOne (to_bson joinedGroup) (joinedCollection s)\<rparr>))))"

section \<open>Articles and comments\<close>




text \<open>The object \<^verbatim>\<open>newComment\<close> that the handler below builds and inserts.\<close>

definition newComment :: "env \<Rightarrow> identity \<Rightarrow> request \<Rightarrow> doc" where
  "newComment e u req =
     (let commentData = body req
      in [(''articleId'', JStr (param_id req)),
          (''text'', js_or (getf commentData ''text'') (getf commentData ''comment'')),
          (''authorName'',
             js_or (getf commentData ''authorName'') (js_or (name u) (JStr ''Anonymous''))),
          (''authorEmail'', email u),
          (''authorId'', uid u),
          (''authorImage'',
             js_or (getf commentData ''authorImage'') (JStr ''https://via.placeholder.com/40'')),
          (''timestamp'', js_or (getf commentData ''timestamp'') (JStr (now e))),
          (''createdAt'', JStr (now e))])"

definition createComment :: "env \<Rightarrow> identity \<Rightarrow> request \<Rightarrow> state \<Rightarrow> nat \<times> state" where
  "createComment e u req s =
     guarded e s (\<lambda>s.
       case toObjectId e (JStr (param_id req)) of
         None \<Rightarrow> (400, s)
       | Some oid \<Rightarrow>
           (case findOne (by_id oid) (articlesCollection s) of
              None \<Rightarrow> (404, s)
            | Some article \<Rightarrow>
                let commentData = body req in
                if \<not> truthy (getf commentData ''text'') \<and> \<not> truthy (getf commentData ''comment'')
                then (400, s)
                else (201, s\<lparr>commentsCollection :=
                        insertOne (freshId e, to_bson (newComment e u req))
                          (commentsCollection s)\<rparr>)))"



text \<open>
  A protected route: the middleware first, then the handler with the identity it
  resolved.
\<close>

definition protected ::
  "(env \<Rightarrow> identity \<Rightarrow> request \<Rightarrow> state \<Rightarrow> nat \<times> state) \<Rightarrow>
     env \<Rightarrow> request \<Rightarrow> state \<Rightarrow> nat \<times> state" where
  "protected handler e req s =
     (case fst (authenticateToken e req) of
        Rejected r \<Rightarrow> (r, s)
      | Authenticated u \<Rightarrow> handler e u req s)"

section \<open>Dashboard statistics\<close>





section \<open>Notions used to state the properties\<close>


text \<open>
  A value of a resolved identity: missing, or a non-empty string (or another truthy
  value). The header values that \<^const>\<open>authenticateToken\<close> accepts are non-empty, and a
  token carries an address and a subject that are non-empty when they are there.
\<close>

definition resolved :: "jsval \<Rightarrow> bool" where
  "resolved v = (v = JUndefined \<or> truthy v)"

text \<open>The guard lets the request through, and the state it then hands to the handler.\<close>

definition passes :: "env \<Rightarrow> state \<Rightarrow> bool" where
  "passes e s = (fst (checkDbConnection e s) = None)"

definition after_guard :: "env \<Rightarrow> state \<Rightarrow> state" where
  "after_guard e s = fst (snd (checkDbConnection e s))"

subsection \<open>A small world for concrete runs\<close>

definition demo_toObjectId :: "jsval \<Rightarrow> string option" where
  "demo_toObjectId v =
     (case v of
        JStr s \<Rightarrow>
          if length s = 24 \<and> list_all (\<lambda>c. c \<in> set ''0123456789abcdef'') s
          then Some s else None
      | _ \<Rightarrow> None)"

definition demo_verify :: "string \<Rightarrow> decoded_token option" where
  "demo_verify t =
     (if t = ''token-of-bob''
      then Some \<lparr>tok_uid = ''uid-bob'', tok_email = Some ''bob@example.com'', tok_name = None\<rparr>
      else None)"

definition demo_env :: env where
  "demo_env =
     \<lparr>verifyIdToken = demo_verify, firebaseAdminInitialized = True,
      toObjectId = demo_toObjectId, pingOk = True,
      connectOk = (\<lambda>i. True), verifyPingOk = (\<lambda>i. True),
      now = ''2024-05-01T10:00:00.000Z'', freshId = ''65a0000000000000000000ff''\<rparr>"

definition alice :: identity where
  "alice = \<lparr>uid = JStr ''uid-alice'', email = JStr ''alice@example.com'', name = JStr ''alice''\<rparr>"

definition bob :: identity where
  "bob = \<lparr>uid = JStr ''uid-bob'', email = JStr ''bob@example.com'', name = JStr ''bob''\<rparr>"

definition gid :: string where "gid = ''65a000000000000000000001''"
definition aid :: string where "aid = ''65a000000000000000000002''"
definition cid :: string where "cid = ''65a000000000000000000003''"

definition demo_state :: state where
  "demo_state =
     \<lparr>dbConnected = True, db = True, topologyConnected = True,
      groupCollection =
        [(gid, [(''groupName'', JStr ''Run Club''), (''maxMembers'', JNum 10),
                (''userEmail'', JStr ''alice@example.com''), (''userId'', JStr ''uid-alice'')])],
      joinedCollection =
        [[(''groupId'', JStr gid), (''userEmail'', JStr ''bob@example.com''),
          (''userId'', JStr ''uid-bob''), (''joinedAt'', JStr ''2024-04-01T09:00:00.000Z'')]],
      articlesCollection =
        [(aid, [(''title'', JStr ''Trails''), (''authorEmail'', JStr ''alice@example.com''),
                (''authorId'', JStr ''uid-alice''), (''userEmail'', JStr ''alice@example.com''),
                (''userId'', JStr ''uid-alice'')])],
      commentsCollection =
        [(cid, [(''articleId'', JStr aid), (''text'', JStr ''Nice''),
                (''authorEmail'', JStr ''bob@example.com''), (''authorId'', JStr ''uid-bob'')])]\<rparr>"

definition demo_req :: "string \<Rightarrow> string \<Rightarrow> doc \<Rightarrow> request" where
  "demo_req i c b = \<lparr>headers = [], param_id = i, param_commentId = c, body = b\<rparr>"

definition demo_auth_req :: request where
  "demo_auth_req =
     \<lparr>headers =
        [(''authorization'', ''Bearer token-of-bob''), (''x-user-email'', ''alice@example.com''),
         (''x-user-uid'', ''uid-alice'')],
      param_id = gid, param_commentId = cid, body = []\<rparr>"

definition join_req :: request where
  "join_req = demo_req [] [] [(''groupId'', JStr gid)]"


text \<open>The comment that the last insertion stored.\<close>

definition stored_comment :: "state \<Rightarrow> doc" where
  "stored_comment s = snd (last (commentsCollection s))"


definition mallory :: identity where
  "mallory = \<lparr>uid = JStr ''uid-mallory'', email = JStr ''mallory@example.com'',
               name = JStr ''mallory''\<rparr>"

definition comment_req :: request where
  "comment_req =
     demo_req aid cid
       [(''text'', JStr ''Hello''), (''authorName'', JStr ''Mallory''),
        (''authorEmail'', JStr ''mallory@example.com''), (''authorId'', JStr ''uid-mallory''),
        (''authorImage'', JStr ''https://example.com/m.png'')]"




definition ping_fails_env :: env where
  "ping_fails_env = demo_env\<lparr>pingOk := False\<rparr>"

definition down_state :: state where
  "down_state = demo_state\<lparr>dbConnected := False, db := False, topologyConnected := False\<rparr>"

section \<open>Basic facts\<close>

lemma strict_eq_undefined: "truthy v \<Longrightarrow> strict_eq v JUndefined = False"
  by (cases v) simp_all

lemma strict_eq_null: "truthy v \<Longrightarrow> strict_eq v JNull = False"
  by (cases v) simp_all



text \<open>The chain of early returns of \<^const>\<open>isCreator\<close> is a disjunction of guarded probes.\<close>

lemma isCreator_truthy_iff:
  "isCreator r em ui =
     (truthy (getf r ''userEmail'') \<and> strict_eq (getf r ''userEmail'') em \<or>
      truthy (getf r ''creatorEmail'') \<and> strict_eq (getf r ''creatorEmail'') em \<or>
      truthy (getf r ''authorEmail'') \<and> strict_eq (getf r ''authorEmail'') em \<or>
      truthy (getf r ''userId'') \<and> strict_eq (getf r ''userId'') ui \<or>
      truthy (getf r ''creatorId'') \<and> strict_eq (getf r ''creatorId'') ui \<or>
      truthy (getf r ''authorId'') \<and> strict_eq (getf r ''authorId'') ui)"
  by (simp add: isCreator_def)



text \<open>
  The identities that \<^const>\<open>authenticateToken\<close> resolves have such values, when the
  verification service gives tokens a non-empty subject and, if any, a non-empty address.
\<close>

lemma authenticateToken_resolved:
  assumes "authenticateToken e req = (Authenticated u, t)"
    and "\<And>tok d. verifyIdToken e tok = Some d \<Longrightarrow> tok_uid d \<noteq> [] \<and> tok_email d \<noteq> Some []"
  shows "resolved (email u) \<and> resolved (uid u)"
proof (cases "truthy (js_or (header req ''x-user-email'') (header req ''user-email'')) \<and>
              truthy (js_or (header req ''x-user-uid'') (header req ''user-uid''))")
  case True
  with assms(1) show ?thesis
    by (auto simp: authenticateToken_def Let_def resolved_def)
next
  case False
  with assms(1) obtain tok d where "verifyIdToken e tok = Some d"
    and "u = \<lparr>uid = JStr (tok_uid d), email = opt_str (tok_email d),
              name = js_or (opt_str (tok_name d)) (local_part (opt_str (tok_email d)))\<rparr>"
    by (auto simp: authenticateToken_def Let_def split: if_splits option.splits jsval.splits)
  with assms(2)[of tok d] show ?thesis
    by (cases "tok_email d") (auto simp: resolved_def opt_str_def)
qed

subsection \<open>The guard\<close>

lemma checkDb_collections:
  "checkDbConnection e s = (r, s', t) \<Longrightarrow>
     groupCollection s' = groupCollection s \<and> joinedCollection s' = joinedCollection s \<and>
     articlesCollection s' = articlesCollection s \<and> commentsCollection s' = commentsCollection s"
  by (auto simp: checkDbConnection_def connectToMongoDB_def
      split: if_splits prod.splits bool.splits)

lemma guarded_pass: "passes e s \<Longrightarrow> guarded e s k = k (after_guard e s)"
  by (auto simp: passes_def guarded_def after_guard_def split: prod.splits option.splits)

lemma guarded_fail: "\<not> passes e s \<Longrightarrow> guarded e s k = (503, after_guard e s)"
  by (auto simp: passes_def guarded_def after_guard_def checkDbConnection_def
      split: prod.splits option.splits if_splits bool.splits)

lemma after_guard_collections [simp]:
  "groupCollection (after_guard e s) = groupCollection s"
  "joinedCollection (after_guard e s) = joinedCollection s"
  "articlesCollection (after_guard e s) = articlesCollection s"
  "commentsCollection (after_guard e s) = commentsCollection s"
  using checkDb_collections[of e s "fst (checkDbConnection e s)" "after_guard e s"
      "snd (snd (checkDbConnection e s))"]
  by (simp_all add: after_guard_def)

subsection \<open>Collections\<close>


section \<open>Ownership decides update and delete\<close>








text \<open>
  Claim C10. Whatever the resource, \<^const>\<open>isCreator\<close> answers false when the address and
  the subject it is given are both absent (each \<^verbatim>\<open>undefined\<close> or \<^verbatim>\<open>null\<close>): a probe runs
  only on a truthy field, and a truthy value is never strictly equal to an absent one.
\<close>

theorem isCreator_absent_identity:
  "isCreator r JUndefined JUndefined = False \<and> isCreator r JUndefined JNull = False \<and>
   isCreator r JNull JUndefined = False \<and> isCreator r JNull JNull = False"
  by (simp add: isCreator_truthy_iff strict_eq_undefined strict_eq_null)

section \<open>Identity resolution\<close>

text \<open>
  Claim C3. A request that carries both fallback header values (an address and a subject,
  each non-empty, under \<^verbatim>\<open>x-user-email\<close>/\<^verbatim>\<open>user-email\<close> and \<^verbatim>\<open>x-user-uid\<close>/\<^verbatim>\<open>user-uid\<close>) is
  resolved from them, whatever bearer token it also carries: the subject and the address are
  the header values, the display name is the address up to its first \<^verbatim>\<open>@\<close>, no token is
  handed to the verification service, and the handler of a protected route runs with that
  identity.
\<close>

theorem fallback_headers_take_precedence:
  assumes "js_or (header req ''x-user-email'') (header req ''user-email'') = JStr em"
    and "em \<noteq> []"
    and "js_or (header req ''x-user-uid'') (header req ''user-uid'') = JStr ui"
    and "ui \<noteq> []"
  shows "authenticateToken e req =
           (Authenticated \<lparr>uid = JStr ui, email = JStr em, name = JStr (before_sep ''@'' em)\<rparr>, [])
         \<and> protected handler e req s =
             handler e \<lparr>uid = JStr ui, email = JStr em, name = JStr (before_sep ''@'' em)\<rparr> req s"
  using assms by (simp add: authenticateToken_def protected_def Let_def local_part_def)

text \<open>
  A request with the two headers of alice and a bearer token that the verification
  service would resolve to bob: it is resolved to alice, and no token is verified.
\<close>

theorem fallback_headers_take_precedence_witness:
  "js_or (header demo_auth_req ''x-user-email'') (header demo_auth_req ''user-email'') =
     JStr ''alice@example.com'' \<and>
   js_or (header demo_auth_req ''x-user-uid'') (header demo_auth_req ''user-uid'') =
     JStr ''uid-alice'' \<and>
   bearer_token demo_auth_req = JStr ''token-of-bob'' \<and>
   verifyIdToken demo_env ''token-of-bob'' \<noteq> None \<and>
   authenticateToken demo_env demo_auth_req = (Authenticated alice, []) \<and>
   protected deleteGroup demo_env demo_auth_req demo_state =
     deleteGroup demo_env alice demo_auth_req demo_state"
proof -
  have h: "js_or (header demo_auth_req ''x-user-email'') (header demo_auth_req ''user-email'') =
     JStr ''alice@example.com''"
    "''alice@example.com'' \<noteq> []"
    "js_or (header demo_auth_req ''x-user-uid'') (header demo_auth_req ''user-uid'') =
     JStr ''uid-alice''"
    "''uid-alice'' \<noteq> []"
    "bearer_token demo_auth_req = JStr ''token-of-bob''"
    "verifyIdToken demo_env ''token-of-bob'' \<noteq> None"
    "before_sep ''@'' ''alice@example.com'' = ''alice''"
    by code_simp+
  show ?thesis
    using h fallback_headers_take_precedence[OF h(1-4), of demo_env deleteGroup demo_state]
    by (simp add: alice_def)
qed

section \<open>Dashboard merge\<close>











section \<open>Cascading deletes\<close>

lemma query_eq_same: "query_eq (store_val q) q"
  by (simp add: query_eq_def)






section \<open>Joining twice\<close>

lemma find_Some_if: "j \<in> set c \<Longrightarrow> p j \<Longrightarrow> find p c \<noteq> None"
  by (auto simp: find_None_iff)

text \<open>
  Claim C7. When the guard lets the request through and a join record for the group of the
  request and the address of the identity is already stored, joining is answered 409 and
  the join records are left as they were.
\<close>

theorem join_conflict:
  assumes "passes e s"
    and "getf (body req) ''groupId'' = JStr g" and "g \<noteq> []"
    and "j \<in> set (joinedCollection s)"
    and "getf j ''groupId'' = JStr g" and "getf j ''userEmail'' = store_val (email u)"
  shows "fst (joinGroup e u req s) = 409 \<and>
         joinedCollection (snd (joinGroup e u req s)) = joinedCollection s"
proof -
  have "join_query (JStr g) (email u) j"
    using assms(5,6) query_eq_same[of "JStr g"] query_eq_same[of "email u"]
    by (simp add: join_query_def)
  from find_Some_if[where p = "join_query (JStr g) (email u)", OF assms(4) this]
  have f: "findOne (join_query (JStr g) (email u)) (joinedCollection s) \<noteq> None"
    by (simp add: findOne_def)
  have "joinGroup e u req s = (409, after_guard e s)"
    using assms(1-3) f
    by (simp add: joinGroup_def guarded_pass Let_def split: option.splits)
  then show ?thesis by simp
qed

text \<open>The same, for a join repeated after one that was answered 201.\<close>

lemma join_twice:
  assumes "fst (joinGroup e u req s) = 201" and "passes e' (snd (joinGroup e u req s))"
  shows "fst (joinGroup e' u req (snd (joinGroup e u req s))) = 409 \<and>
         joinedCollection (snd (joinGroup e' u req (snd (joinGroup e u req s)))) =
           joinedCollection (snd (joinGroup e u req s))"
proof -
  let ?g = "getf (body req) ''groupId''"
  let ?rec = "to_bson [(''groupId'', ?g), (''userEmail'', email u), (''userId'', uid u),
                       (''joinedAt'', JStr (now e))]"
  let ?s1 = "snd (joinGroup e u req s)"
  have p: "passes e s"
    using assms(1) by (cases "passes e s") (simp_all add: joinGroup_def guarded_fail)
  from assms(1) p have t: "truthy ?g"
    by (auto simp: joinGroup_def guarded_pass Let_def split: option.splits if_splits)
  from assms(1) p have s1: "joinedCollection ?s1 = joinedCollection s @ [?rec]"
    by (auto simp: joinGroup_def guarded_pass Let_def insertOne_def
        split: option.splits if_splits)
  have q: "join_query ?g (email u) ?rec"
    by (simp add: join_query_def to_bson_def getf_def query_eq_same)
  have m: "?rec \<in> set (joinedCollection ?s1)" by (simp add: s1)
  from find_Some_if[where p = "join_query ?g (email u)", OF m q]
  have f: "findOne (join_query ?g (email u)) (joinedCollection ?s1) \<noteq> None"
    by (simp add: findOne_def)
  have "joinGroup e' u req ?s1 = (409, after_guard e' ?s1)"
    using assms(2) t f
    by (simp add: joinGroup_def[of e' u req ?s1] guarded_pass Let_def split: option.splits)
  then show ?thesis by simp
qed

text \<open>Alice joins her own group, then joins again.\<close>

theorem join_conflict_witness:
  "passes demo_env demo_state \<and>
   fst (joinGroup demo_env alice join_req demo_state) = 201 \<and>
   length (joinedCollection (snd (joinGroup demo_env alice join_req demo_state))) = 2 \<and>
   passes demo_env (snd (joinGroup demo_env alice join_req demo_state)) \<and>
   fst (joinGroup demo_env alice join_req
         (snd (joinGroup demo_env alice join_req demo_state))) = 409 \<and>
   joinedCollection (snd (joinGroup demo_env alice join_req
         (snd (joinGroup demo_env alice join_req demo_state)))) =
     joinedCollection (snd (joinGroup demo_env alice join_req demo_state))"
proof -
  let ?s1 = "snd (joinGroup demo_env alice join_req demo_state)"
  have h: "passes demo_env demo_state"
    "fst (joinGroup demo_env alice join_req demo_state) = 201"
    "length (joinedCollection ?s1) = 2"
    "passes demo_env ?s1"
    "getf (body join_req) ''groupId'' = JStr gid" "gid \<noteq> []"
    "last (joinedCollection ?s1) \<in> set (joinedCollection ?s1)"
    "getf (last (joinedCollection ?s1)) ''groupId'' = JStr gid"
    "getf (last (joinedCollection ?s1)) ''userEmail'' = store_val (email alice)"
    by code_simp+
  from join_conflict[OF h(4-9)] h show ?thesis by simp
qed

section \<open>Ownership fields under update\<close>

lemma map_of_to_bson: "map_of (to_bson d) k = map_option store_val (map_of d k)"
  by (induction d) (auto simp: to_bson_def)

lemma getf_dollar_set:
  "getf (dollar_set st upd) k =
     (case map_of upd k of None \<Rightarrow> getf st k | Some v \<Rightarrow> store_val v)"
  by (simp add: getf_def dollar_set_def merge_conv' map_of_to_bson map_add_def
      split: option.splits)

lemma map_of_setf: "map_of (setf d k v) = (map_of d)(k \<mapsto> v)"
  by (simp add: setf_def update_conv')

lemma map_of_delf: "map_of (delf d k) = (map_of d)(k := None)"
  by (simp add: delf_def delete_conv')




text \<open>
  On success the stored group takes every other field of the payload, keeps the fields
  the payload does not name, and is stamped with the time of the update.
\<close>

lemma find_updateOne:
  assumes "\<And>d. p (f d) = p d"
  shows "find p (updateOne p f c) = map_option f (find p c)"
  using assms by (induction c) simp_all

lemma updateGroup_merges:
  assumes "fst (updateGroup e u req s) = 200"
    and "toObjectId e (JStr (param_id req)) = Some oid"
    and "findOne (by_id oid) (groupCollection s) = Some g"
    and "k \<notin> {''userEmail'', ''userId'', ''creatorEmail'', ''creatorId'', ''updatedAt''}"
  shows "\<exists>g'. findOne (by_id oid) (groupCollection (snd (updateGroup e u req s))) = Some g' \<and>
           fst g' = fst g \<and>
           getf (snd g') k =
             (case map_of (body req) k of None \<Rightarrow> getf (snd g) k | Some v \<Rightarrow> store_val v) \<and>
           getf (snd g') ''updatedAt'' = JStr (now e)"
proof -
  have p: "passes e s"
    using assms(1) by (cases "passes e s") (simp_all add: updateGroup_def guarded_fail)
  let ?upd = "setf (delf (delf (delf (delf (body req) ''userEmail'') ''userId'')
                  ''creatorEmail'') ''creatorId'') ''updatedAt'' (JStr (now e))"
  let ?f = "\<lambda>d::string \<times> doc. (fst d, dollar_set (snd d) ?upd)"
  from p assms(1-3) have s': "groupCollection (snd (updateGroup e u req s)) =
      updateOne (by_id oid) ?f (groupCollection s)"
    by (simp add: updateGroup_def guarded_pass Let_def split: if_splits)
  have "find (by_id oid) (updateOne (by_id oid) ?f (groupCollection s)) =
          map_option ?f (find (by_id oid) (groupCollection s))"
    by (rule find_updateOne) (simp add: by_id_def)
  with assms(3) have "findOne (by_id oid) (groupCollection (snd (updateGroup e u req s))) = Some (?f g)"
    by (simp add: s' findOne_def)
  moreover from assms(4) have "getf (snd (?f g)) k =
             (case map_of (body req) k of None \<Rightarrow> getf (snd g) k | Some v \<Rightarrow> store_val v)"
    by (simp add: getf_dollar_set map_of_setf map_of_delf)
  moreover have "getf (snd (?f g)) ''updatedAt'' = JStr (now e)"
    by (simp add: getf_dollar_set map_of_setf)
  ultimately show ?thesis by simp
qed



section \<open>Creating a comment\<close>

lemma auth_reject_401: "fst (authenticateToken e req) = Rejected r \<Longrightarrow> r = 401"
  by (auto simp: authenticateToken_def Let_def split: if_splits option.splits jsval.splits)

lemma protected_reject:
  "fst (authenticateToken e req) = Rejected r \<Longrightarrow> protected handler e req s = (401, s)"
  using auth_reject_401[of e req r] by (simp add: protected_def)

lemma createComment_201:
  assumes "fst (createComment e u req s) = 201"
  shows "commentsCollection (snd (createComment e u req s)) =
           commentsCollection s @ [(freshId e, to_bson (newComment e u req))]"
proof (cases "passes e s")
  case False
  with assms show ?thesis by (simp add: createComment_def guarded_fail)
next
  case True
  with assms show ?thesis
    by (auto simp: createComment_def guarded_pass Let_def insertOne_def
        split: option.splits if_splits)
qed

lemma getf_to_bson: "getf (to_bson d) k = (case map_of d k of None \<Rightarrow> JUndefined | Some v \<Rightarrow> store_val v)"
  by (simp add: getf_def map_of_to_bson split: option.splits)

lemma newComment_author:
  "getf (to_bson (newComment e u req)) ''authorEmail'' = store_val (email u)"
  "getf (to_bson (newComment e u req)) ''authorId'' = store_val (uid u)"
  "getf (to_bson (newComment e u req)) ''authorName'' =
     store_val (js_or (getf (body req) ''authorName'') (js_or (name u) (JStr ''Anonymous'')))"
  "getf (to_bson (newComment e u req)) ''authorImage'' =
     store_val (js_or (getf (body req) ''authorImage'') (JStr ''https://via.placeholder.com/40''))"
  by (simp_all add: getf_to_bson newComment_def Let_def)

lemma createComment_created:
  assumes "fst (createComment e u req s) = 201"
  shows "commentsCollection (snd (createComment e u req s)) =
           commentsCollection s @ [(freshId e, stored_comment (snd (createComment e u req s)))] \<and>
         getf (stored_comment (snd (createComment e u req s))) ''authorEmail'' = store_val (email u) \<and>
         getf (stored_comment (snd (createComment e u req s))) ''authorId'' = store_val (uid u) \<and>
         getf (stored_comment (snd (createComment e u req s))) ''authorName'' =
           store_val (js_or (getf (body req) ''authorName'') (js_or (name u) (JStr ''Anonymous''))) \<and>
         getf (stored_comment (snd (createComment e u req s))) ''authorImage'' =
           store_val (js_or (getf (body req) ''authorImage'')
                        (JStr ''https://via.placeholder.com/40''))"
proof -
  have "stored_comment (snd (createComment e u req s)) = to_bson (newComment e u req)"
    by (simp add: stored_comment_def createComment_201[OF assms])
  then show ?thesis
    by (simp add: createComment_201[OF assms] newComment_author)
qed

text \<open>
  Claim C4, amended. A request that the middleware rejects creates no comment and is
  answered 401. When creating a comment is answered 201, one comment has been appended;
  its \<^verbatim>\<open>authorEmail\<close> and \<^verbatim>\<open>authorId\<close> are those of the resolved identity whatever the body
  holds; its \<^verbatim>\<open>authorName\<close> is the one of the body when the body gives one, otherwise the
  name of the identity, otherwise \<^verbatim>\<open>Anonymous\<close>; its \<^verbatim>\<open>authorImage\<close> is the one of the body
  when the body gives one, otherwise the placeholder.
\<close>

theorem comment_author_from_identity:
  "(fst (authenticateToken e req) = Rejected r \<longrightarrow>
      protected createComment e req s = (401, s)) \<and>
   (fst (createComment e u req s) = 201 \<longrightarrow>
      commentsCollection (snd (createComment e u req s)) =
        commentsCollection s @ [(freshId e, stored_comment (snd (createComment e u req s)))] \<and>
      getf (stored_comment (snd (createComment e u req s))) ''authorEmail'' = store_val (email u) \<and>
      getf (stored_comment (snd (createComment e u req s))) ''authorId'' = store_val (uid u) \<and>
      getf (stored_comment (snd (createComment e u req s))) ''authorName'' =
        store_val (js_or (getf (body req) ''authorName'') (js_or (name u) (JStr ''Anonymous''))) \<and>
      getf (stored_comment (snd (createComment e u req s))) ''authorImage'' =
        store_val (js_or (getf (body req) ''authorImage'')
                     (JStr ''https://via.placeholder.com/40'')))"
  using protected_reject[of e req r createComment s] createComment_created[of e u req s]
  by blast


text \<open>
  A request without credentials is rejected; alice's comment carries her address and
  subject although the body names mallory.
\<close>

theorem comment_author_from_identity_witness:
  "fst (authenticateToken demo_env comment_req) = Rejected 401 \<and>
   protected createComment demo_env comment_req demo_state = (401, demo_state) \<and>
   fst (createComment demo_env alice comment_req demo_state) = 201 \<and>
   getf (stored_comment (snd (createComment demo_env alice comment_req demo_state)))
     ''authorEmail'' = JStr ''alice@example.com'' \<and>
   getf (stored_comment (snd (createComment demo_env alice comment_req demo_state)))
     ''authorId'' = JStr ''uid-alice'' \<and>
   getf (body comment_req) ''authorEmail'' = JStr ''mallory@example.com''"
proof -
  have h: "fst (authenticateToken demo_env comment_req) = Rejected 401"
    "fst (createComment demo_env alice comment_req demo_state) = 201"
    "getf (body comment_req) ''authorEmail'' = JStr ''mallory@example.com''"
    "store_val (email alice) = JStr ''alice@example.com''"
    "store_val (uid alice) = JStr ''uid-alice''"
    by code_simp+
  from comment_author_from_identity[of demo_env comment_req 401 demo_state alice] h(1,2)
  have c: "protected createComment demo_env comment_req demo_state = (401, demo_state)"
    "getf (stored_comment (snd (createComment demo_env alice comment_req demo_state)))
       ''authorEmail'' = store_val (email alice)"
    "getf (stored_comment (snd (createComment demo_env alice comment_req demo_state)))
       ''authorId'' = store_val (uid alice)"
    by blast+
  show ?thesis
    unfolding c h by simp
qed

text \<open>
  Claim C4 as stated fails on the other author fields: the comment alice creates is stored
  under the name and the image that the body gives.
\<close>

theorem comment_author_fields_counterexample:
  "fst (createComment demo_env alice comment_req demo_state) = 201 \<and>
   getf (stored_comment (snd (createComment demo_env alice comment_req demo_state)))
     ''authorName'' = JStr ''Mallory'' \<and>
   getf (stored_comment (snd (createComment demo_env alice comment_req demo_state)))
     ''authorImage'' = JStr ''https://example.com/m.png'' \<and>
   name alice = JStr ''alice''"
  by code_simp

section \<open>Validation on create\<close>








section \<open>The availability guard\<close>

lemma connect_once:
  "\<not> topologyConnected s \<Longrightarrow>
     connectToMongoDB e 1 s =
       (if connectOk e 0 then
          (if verifyPingOk e 0
           then (True, s\<lparr>topologyConnected := True, db := True, dbConnected := True\<rparr>)
           else (False, s\<lparr>topologyConnected := True, dbConnected := False\<rparr>))
        else (False, s\<lparr>dbConnected := False\<rparr>))"
  by (simp add: connectToMongoDB_def)

lemma checkDb_flag_up:
  assumes "dbConnected s" and "db s"
  shows "checkDbConnection e s =
           (if pingOk e then (None, s, True, False)
            else (Some 503, s\<lparr>dbConnected := False\<rparr>, True, False))"
  using assms by (simp add: checkDbConnection_def)

lemma checkDb_flag_down:
  assumes "\<not> (dbConnected s \<and> db s)" and "\<not> topologyConnected s"
  shows "checkDbConnection e s =
           (if connectOk e 0 \<and> verifyPingOk e 0 then None else Some 503,
            snd (connectToMongoDB e 1 s), False, True)"
  using assms by (auto simp: checkDbConnection_def connect_once simp del: One_nat_def)

text \<open>
  Claim C8, amended. A request that finds the connection flagged up issues the liveness
  ping; when the ping succeeds the request proceeds, and when it fails the flag is cleared
  and the request is answered 503 with no reconnection attempted. A request that finds the
  flag down while the client's topology is not connected skips that ping and makes one
  connection attempt (which verifies itself with a ping of its own); the request proceeds
  on the restored state when the attempt succeeds and is answered 503 otherwise. A handler
  runs exactly when the guard lets the request through.
\<close>

theorem availability_guard:
  "(dbConnected s \<and> db s \<longrightarrow>
      checkDbConnection e s =
        (if pingOk e then (None, s, True, False)
         else (Some 503, s\<lparr>dbConnected := False\<rparr>, True, False))) \<and>
   (\<not> (dbConnected s \<and> db s) \<and> \<not> topologyConnected s \<longrightarrow>
      checkDbConnection e s =
        (if connectOk e 0 \<and> verifyPingOk e 0 then None else Some 503,
         snd (connectToMongoDB e 1 s), False, True) \<and>
      fst (connectToMongoDB e 1 s) = (connectOk e 0 \<and> verifyPingOk e 0)) \<and>
   guarded e s k = (if passes e s then k (after_guard e s) else (503, after_guard e s))"
proof (intro conjI impI)
  assume "dbConnected s \<and> db s"
  then show "checkDbConnection e s =
        (if pingOk e then (None, s, True, False)
         else (Some 503, s\<lparr>dbConnected := False\<rparr>, True, False))"
    by (simp add: checkDb_flag_up)
next
  assume a: "\<not> (dbConnected s \<and> db s) \<and> \<not> topologyConnected s"
  then show "checkDbConnection e s =
        (if connectOk e 0 \<and> verifyPingOk e 0 then None else Some 503,
         snd (connectToMongoDB e 1 s), False, True)"
    by (intro checkDb_flag_down) simp_all
  from a show "fst (connectToMongoDB e 1 s) = (connectOk e 0 \<and> verifyPingOk e 0)"
    by (simp add: connect_once del: One_nat_def)
next
  show "guarded e s k = (if passes e s then k (after_guard e s) else (503, after_guard e s))"
    by (simp add: guarded_pass guarded_fail)
qed

text \<open>
  Claim C8 as stated fails. With the flag up and a failing ping, the guard answers 503
  and attempts no reconnection, though a connection attempt would succeed.
\<close>

theorem availability_guard_counterexample:
  "dbConnected demo_state \<and> db demo_state \<and> \<not> pingOk ping_fails_env \<and>
   connectOk ping_fails_env 0 \<and> verifyPingOk ping_fails_env 0 \<and>
   checkDbConnection ping_fails_env demo_state =
     (Some 503, demo_state\<lparr>dbConnected := False\<rparr>, True, False) \<and>
   fst (joinGroup ping_fails_env alice join_req demo_state) = 503 \<and>
   fst (connectToMongoDB ping_fails_env 1 (demo_state\<lparr>topologyConnected := False\<rparr>))"
  by code_simp

text \<open>The three cases of the guard, and a join request behind it.\<close>

theorem availability_guard_witness:
  "dbConnected demo_state \<and> db demo_state \<and>
   checkDbConnection demo_env demo_state = (None, demo_state, True, False) \<and>
   checkDbConnection ping_fails_env demo_state =
     (Some 503, demo_state\<lparr>dbConnected := False\<rparr>, True, False) \<and>
   \<not> (dbConnected down_state \<and> db down_state) \<and> \<not> topologyConnected down_state \<and>
   checkDbConnection demo_env down_state = (None, demo_state, False, True) \<and>
   passes demo_env down_state \<and>
   joinGroup demo_env alice join_req down_state = joinGroup demo_env alice join_req demo_state \<and>
   \<not> passes ping_fails_env demo_state \<and>
   fst (joinGroup ping_fails_env alice join_req demo_state) = 503"
proof -
  have h: "dbConnected demo_state \<and> db demo_state"
    "\<not> (dbConnected down_state \<and> db down_state) \<and> \<not> topologyConnected down_state"
    "pingOk demo_env" "\<not> pingOk ping_fails_env"
    "connectOk demo_env 0 \<and> verifyPingOk demo_env 0"
    "snd (connectToMongoDB demo_env 1 down_state) = demo_state"
    "passes demo_env down_state"
    "\<not> passes ping_fails_env demo_state"
    "after_guard demo_env down_state = demo_state"
    "after_guard demo_env demo_state = demo_state"
    "passes demo_env demo_state"
    by code_simp+
  note g = availability_guard[of demo_state demo_env]
    availability_guard[of demo_state ping_fails_env]
    availability_guard[of down_state demo_env]
  from g(1) h(1,3) have c1: "checkDbConnection demo_env demo_state = (None, demo_state, True, False)"
    by simp
  from g(2) h(1,4) have c2: "checkDbConnection ping_fails_env demo_state =
     (Some 503, demo_state\<lparr>dbConnected := False\<rparr>, True, False)"
    by simp
  from g(3) h(2,5,6) have c3: "checkDbConnection demo_env down_state = (None, demo_state, False, True)"
    by simp
  have c4: "joinGroup demo_env alice join_req down_state = joinGroup demo_env alice join_req demo_state"
    using availability_guard[of down_state demo_env] availability_guard[of demo_state demo_env]
      h(7,9,10,11)
    by (simp add: joinGroup_def)
  have c5: "fst (joinGroup ping_fails_env alice join_req demo_state) = 503"
    using availability_guard[of demo_state ping_fails_env] h(8)
    by (simp add: joinGroup_def)
  from h c1 c2 c3 c4 c5 show ?thesis by blast
qed

end
